theory Spec2Isabelle
  imports Main "HOL-Library.Monad_Syntax"
begin

section \<open>JavaScript values read by the module\<close>

text \<open>
  The value that \<open>cX.tryJsonParse(obj.stdout)\<close> hands to \<open>ffprobe_success\<close>. An object
  is an association list in insertion order; a later binding of a key wins, as a later
  assignment to a property does. \<open>JNum\<close> stands for integer literals of magnitude below
  \<open>10^21\<close> (the numbers the tool prints: indices, channel counts), for which
  \<open>parseInt\<close> of the number is the number itself.
\<close>

datatype json =
    JUndefined
  | JNull
  | JBool bool
  | JNum int
  | JStr string
  | JArr "json list"
  | JObj "(string \<times> json) list"

text \<open>ToBoolean: what \<open>!x\<close>, \<open>x ? a : b\<close> and \<open>x || y\<close> test.\<close>

fun truthy :: "json \<Rightarrow> bool" where
  "truthy JUndefined = False"
| "truthy JNull = False"
| "truthy (JBool b) = b"
| "truthy (JNum n) = (n \<noteq> 0)"
| "truthy (JStr s) = (s \<noteq> [])"
| "truthy (JArr xs) = True"
| "truthy (JObj kvs) = True"

definition js_or :: "json \<Rightarrow> json \<Rightarrow> json" where
  "js_or a b = (if truthy a then a else b)"

text \<open>
  Property read \<open>x.k\<close>: a TypeError (\<open>None\<close>) on \<open>undefined\<close> and \<open>null\<close>,
  \<open>undefined\<close> for a property that is not there.
\<close>

fun get_prop :: "json \<Rightarrow> string \<Rightarrow> json option" where
  "get_prop JUndefined k = None"
| "get_prop JNull k = None"
| "get_prop (JObj kvs) k =
     Some (case map_of (rev kvs) k of None \<Rightarrow> JUndefined | Some v \<Rightarrow> v)"
| "get_prop (JArr xs) k =
     Some (if k = ''length'' then JNum (int (length xs)) else JUndefined)"
| "get_prop (JStr s) k =
     Some (if k = ''length'' then JNum (int (length s)) else JUndefined)"
| "get_prop (JBool b) k = Some JUndefined"
| "get_prop (JNum n) k = Some JUndefined"

subsection \<open>Strings: lower case, \<open>split(',')[0]\<close>, ToString\<close>

definition lower_char :: "char \<Rightarrow> char" where
  "lower_char c =
     (case map_of (zip ''ABCDEFGHIJKLMNOPQRSTUVWXYZ'' ''abcdefghijklmnopqrstuvwxyz'') c of
        None \<Rightarrow> c
      | Some d \<Rightarrow> d)"

definition toLowerCase :: "string \<Rightarrow> string" where
  "toLowerCase s = map lower_char s"

text \<open>\<open>s.split(',')[0]\<close>: the text before the first comma, all of it when there is none.\<close>

definition split_first :: "string \<Rightarrow> string" where
  "split_first s = takeWhile (\<lambda>c. c \<noteq> CHR '','') s"

definition digit_char :: "nat \<Rightarrow> char" where
  "digit_char d = ''0123456789'' ! (d mod 10)"

fun show_nat :: "nat \<Rightarrow> string" where
  "show_nat n = (if n < 10 then [digit_char n] else show_nat (n div 10) @ [digit_char n])"

declare show_nat.simps [simp del]

definition show_int :: "int \<Rightarrow> string" where
  "show_int i = (if i < 0 then CHR ''-'' # show_nat (nat (- i)) else show_nat (nat i))"

fun join_comma :: "string list \<Rightarrow> string" where
  "join_comma [] = []"
| "join_comma [x] = x"
| "join_comma (x # y # ys) = x @ '','' @ join_comma (y # ys)"

fun to_string :: "json \<Rightarrow> string" where
  "to_string JUndefined = ''undefined''"
| "to_string JNull = ''null''"
| "to_string (JBool b) = (if b then ''true'' else ''false'')"
| "to_string (JNum n) = show_int n"
| "to_string (JStr s) = s"
| "to_string (JArr xs) =
     join_comma (map (\<lambda>x. if x = JUndefined \<or> x = JNull then [] else to_string x) xs)"
| "to_string (JObj kvs) = ''[object Object]''"

subsection \<open>\<open>parseInt\<close> with no radix argument\<close>

definition is_space :: "char \<Rightarrow> bool" where
  "is_space c = (c \<in> set [CHR '' '', CHR 0x09, CHR 0x0A, CHR 0x0B, CHR 0x0C, CHR 0x0D])"

definition digit_value :: "char \<Rightarrow> nat option" where
  "digit_value c =
     map_of (zip ''0123456789abcdefABCDEF''
               [0, 1, 2, 3, 4, 5, 6, 7, 8, 9, 10, 11, 12, 13, 14, 15, 10, 11, 12, 13, 14, 15]) c"

definition is_digit :: "nat \<Rightarrow> char \<Rightarrow> bool" where
  "is_digit radix c = (case digit_value c of None \<Rightarrow> False | Some d \<Rightarrow> d < radix)"

definition digits_value :: "nat \<Rightarrow> string \<Rightarrow> nat" where
  "digits_value radix z = foldl (\<lambda>a c. a * radix + (case digit_value c of None \<Rightarrow> 0 | Some d \<Rightarrow> d)) 0 z"

text \<open>
  Leading white space is skipped, then a sign, then \<open>0x\<close> or \<open>0X\<close> selects radix 16;
  the longest run of digits is read, and no digit at all gives NaN (\<open>None\<close>). The result
  is exact here; the JavaScript number is exact below \<open>2^53\<close>.
\<close>

definition parse_int_str :: "string \<Rightarrow> int option" where
  "parse_int_str inputString =
     (let s1 = dropWhile is_space inputString;
          neg = (take 1 s1 = ''-'');
          s2 = (if take 1 s1 = ''-'' \<or> take 1 s1 = ''+'' then drop 1 s1 else s1);
          hex = (take 2 s2 = ''0x'' \<or> take 2 s2 = ''0X'');
          radix = (if hex then 16 else 10);
          s3 = (if hex then drop 2 s2 else s2);
          z = takeWhile (is_digit radix) s3
      in if z = [] then None
         else Some ((if neg then - 1 else 1) * int (digits_value radix z)))"

definition parseInt :: "json \<Rightarrow> int option" where
  "parseInt v = parse_int_str (to_string v)"

text \<open>\<open>n || null\<close> on a number: NaN and 0 are falsy.\<close>

fun or_null :: "int option \<Rightarrow> int option" where
  "or_null None = None"
| "or_null (Some n) = (if n = 0 then None else Some n)"

section \<open>Collaborators outside the repository\<close>

text \<open>
  The helpers of libbetter and the parts of the JavaScript runtime that the module calls
  and whose behaviour the source does not fix are parameters of the model:
  \<^item> \<open>tryJsonParse\<close>: \<open>cX.tryJsonParse\<close> on the tool's standard output; \<open>None\<close> when the
    text is not JSON (the helper then returns a falsy value);
  \<^item> \<open>keysToLower_other\<close>: \<open>cX.keysToLower\<close> on a value that is not an object
    (\<open>None\<close> when it throws);
  \<^item> \<open>limitString\<close>: \<open>cX.limitString\<close>;
  \<^item> \<open>utc_offset\<close>: the local time zone's offset from UTC in minutes, strictly between
    minus and plus one day;
  \<^item> \<open>year_other\<close>: \<open>new Date(v).getFullYear()\<close> for a value that is not a date-only
    ISO string, which ECMAScript leaves to the implementation for strings (\<open>None\<close> is NaN).
\<close>

record collab =
  tryJsonParse :: "string \<Rightarrow> json option"
  keysToLower_other :: "json \<Rightarrow> json option"
  limitString :: "string \<Rightarrow> nat \<Rightarrow> string"
  utc_offset :: int
  year_other :: "json \<Rightarrow> int option"

text \<open>
  Modelled from the spec: \<open>cX.keysToLower\<close> of libbetter is not under src/. The spec says
  the extractor "normalizes all keys to a canonical case"; on an object the keys are put
  in lower case, the values kept.
\<close>

fun keysToLower :: "collab \<Rightarrow> json \<Rightarrow> json option" where
  "keysToLower c (JObj kvs) = Some (JObj (map (\<lambda>(k, v). (toLowerCase k, v)) kvs))"
| "keysToLower c v = keysToLower_other c v"

text \<open>
  Modelled from the spec: \<open>cX.toLower\<close> of libbetter is not under src/. It is called as
  \<open>cX.toLower(x, null)\<close>: the lower-case string, or the default \<open>null\<close> (\<open>None\<close>) when
  \<open>x\<close> is not a string.
\<close>

fun toLower :: "json \<Rightarrow> string option" where
  "toLower (JStr s) = Some (toLowerCase s)"
| "toLower v = None"

subsection \<open>\<open>new Date(v).getFullYear()\<close>\<close>

definition decimal :: "string \<Rightarrow> nat option" where
  "decimal s = (if s \<noteq> [] \<and> list_all (is_digit 10) s then Some (digits_value 10 s) else None)"

definition leap_year :: "nat \<Rightarrow> bool" where
  "leap_year y = (y mod 4 = 0 \<and> (y mod 100 \<noteq> 0 \<or> y mod 400 = 0))"

definition days_in_month :: "nat \<Rightarrow> nat \<Rightarrow> nat" where
  "days_in_month y m =
     (if m = 2 then (if leap_year y then 29 else 28)
      else if m \<in> set [4, 6, 9, 11] then 30 else 31)"

text \<open>
  The date-only forms of the ECMAScript date-time string format: \<open>YYYY\<close>, \<open>YYYY-MM\<close> and
  \<open>YYYY-MM-DD\<close>, with the month and the day in range.
\<close>

definition iso_date :: "string \<Rightarrow> (nat \<times> nat \<times> nat) option" where
  "iso_date s =
     (let n = length s;
          ymd = (if n = 4 then Some (s, ''01'', ''01'')
                 else if n = 7 \<and> s ! 4 = CHR ''-'' then Some (take 4 s, drop 5 s, ''01'')
                 else if n = 10 \<and> s ! 4 = CHR ''-'' \<and> s ! 7 = CHR ''-''
                   then Some (take 4 s, take 2 (drop 5 s), drop 8 s)
                 else None)
      in case ymd of
           None \<Rightarrow> None
         | Some (ys, ms, ds) \<Rightarrow>
             (case (decimal ys, decimal ms, decimal ds) of
                (Some y, Some m, Some d) \<Rightarrow>
                  if 1 \<le> m \<and> m \<le> 12 \<and> 1 \<le> d \<and> d \<le> days_in_month y m
                  then Some (y, m, d) else None
              | _ \<Rightarrow> None))"

text \<open>
  A date-only string is midnight UTC of that day; \<open>getFullYear\<close> reads the year in local
  time, which is the year before on the first of January west of Greenwich.
\<close>

definition getFullYear :: "collab \<Rightarrow> json \<Rightarrow> int option" where
  "getFullYear c v =
     (case v of
        JUndefined \<Rightarrow> None
      | JStr s \<Rightarrow>
          (case iso_date s of
             Some (y, m, d) \<Rightarrow> Some (if utc_offset c < 0 \<and> m = 1 \<and> d = 1 then int y - 1 else int y)
           | None \<Rightarrow> year_other c v)
      | _ \<Rightarrow> year_other c v)"

section \<open>The metadata record and the errors\<close>

record metadata =
  codec :: "string option"
  format :: "string option"
  size_m :: "int option"
  bit_rate :: "int option"
  sample_rate :: "int option"
  bit_depth :: "int option"
  channels :: "int option"
  duration :: "int option"
  title :: json
  album :: json
  artist :: json
  year :: "int option"
  genre :: json

text \<open>What the child process helpers resolve with, reject with or return.\<close>

record cp_result =
  stdout :: string
  stderr :: string
  error :: string

text \<open>
  The errors built with \<open>log.makeError\<close>, with the arguments the source passes:
  \<open>InvocationError\<close> in \<open>ffprobe_fail\<close> (the tool's error, the limited stderr text, the
  path), the three extraction errors in \<open>ffprobe_success\<close> (the error caught by the
  \<open>try\<close> block is not kept in \<open>ExtractFailed\<close>), and the error that the blocking helper
  throws, which \<open>ffprobe.sync\<close> stores as it is.
\<close>

datatype perror =
    InvocationError string "string option" string
  | UnexpectedValue string cp_result
  | MissingData string json
  | ExtractFailed json
  | ExecSyncError string

fun is_ExtractionError :: "perror \<Rightarrow> bool" where
  "is_ExtractionError (UnexpectedValue path obj) = True"
| "is_ExtractionError (MissingData path info) = True"
| "is_ExtractionError (ExtractFailed info) = True"
| "is_ExtractionError e = False"

text \<open>
  The object literal of the \<open>try\<close> block, on the first stream \<open>s0\<close> and the format
  block \<open>f0\<close>; \<open>None\<close> when evaluating it throws. \<open>cX.toLower(f.format_name, null)\<close> is
  \<open>null\<close> for a format name that is not a string, and \<open>.split\<close> on it throws.
\<close>

definition extract_fields :: "collab \<Rightarrow> json \<Rightarrow> json \<Rightarrow> metadata option" where
  "extract_fields c s0 f0 =
     do {
       s \<leftarrow> keysToLower c s0;
       f \<leftarrow> keysToLower c f0;
       tags \<leftarrow> get_prop f ''tags'';
       t \<leftarrow> (if truthy tags then keysToLower c tags else Some (JObj []));
       codec_name \<leftarrow> get_prop s ''codec_name'';
       format_name \<leftarrow> get_prop f ''format_name'';
       fmt \<leftarrow> map_option split_first (toLower format_name);
       f_size \<leftarrow> get_prop f ''size'';
       f_bit_rate \<leftarrow> get_prop f ''bit_rate'';
       s_sample_rate \<leftarrow> get_prop s ''sample_rate'';
       s_bits \<leftarrow> get_prop s ''bits_per_raw_sample'';
       s_channels \<leftarrow> get_prop s ''channels'';
       s_duration \<leftarrow> get_prop s ''duration'';
       t_title \<leftarrow> get_prop t ''title'';
       t_name \<leftarrow> get_prop t ''name'';
       t_album \<leftarrow> get_prop t ''album'';
       t_artist \<leftarrow> get_prop t ''artist'';
       t_albumartist \<leftarrow> get_prop t ''albumartist'';
       t_album_artist \<leftarrow> get_prop t ''album_artist'';
       t_composer \<leftarrow> get_prop t ''composer'';
       t_year \<leftarrow> get_prop t ''year'';
       t_date \<leftarrow> get_prop t ''date'';
       t_genre \<leftarrow> get_prop t ''genre'';
       Some \<lparr> codec = toLower codec_name,
              format = Some fmt,
              size_m = or_null (parseInt f_size),
              bit_rate = or_null (parseInt f_bit_rate),
              sample_rate = or_null (parseInt s_sample_rate),
              bit_depth = or_null (parseInt s_bits),
              channels = or_null (parseInt s_channels),
              duration = or_null (parseInt s_duration),
              title = js_or t_title (js_or t_name JNull),
              album = js_or t_album JNull,
              artist = js_or t_artist (js_or t_albumartist (js_or t_album_artist (js_or t_composer JNull))),
              year = or_null (getFullYear c (js_or t_year t_date)),
              genre = js_or t_genre JNull \<rparr>
     }"

section \<open>The cache, the pending operations and the tool's invocations\<close>

text \<open>
  The cache is a plain object (\<open>var ffprobe_cache={}\<close>), tested with
  \<open>ffprobe_cache.hasOwnProperty(path)\<close>, read with \<open>ffprobe_cache[path]\<close> and written with
  \<open>ffprobe_cache[path]=...\<close>. So a read of a name that is not an own property goes on to
  the prototype, and an assignment to \<open>__proto__\<close> replaces the prototype instead of
  adding a property.

  What a read of the cache can give: the promise of a pending operation (named by its
  index in \<open>promises\<close>), the metadata object built by \<open>ffprobe_success\<close>, an \<open>Error\<close>, the
  object that the blocking helper returned, which \<open>ffprobe.sync\<close> stores unprocessed, or
  what the cache inherits under a name: a function of a prototype, \<open>Object.prototype\<close>
  itself under \<open>__proto__\<close>, a property of the object that was made the prototype. An
  inherited value is given only when it is truthy; it is neither a promise nor an
  \<open>Error\<close>.
\<close>

datatype entry =
    Promise nat
  | Info metadata
  | Err perror
  | Raw cp_result
  | Inherited string

datatype pstate = PPending | PFulfilled metadata | PRejected perror

text \<open>
  The tool's processes, most recent first: \<open>Spawn\<close> when one is started for a path (with
  the arguments and the timeout), \<open>Exit\<close> when it has ended.
\<close>

datatype tev = Spawn string "string list" "nat option" | Exit string

text \<open>
  \<open>ffprobe_cache\<close> holds the own properties of the cache object, \<open>proto\<close> the stored
  object that has been made its prototype (\<open>None\<close> while it is \<open>Object.prototype\<close>).
\<close>

record state =
  ffprobe_cache :: "string \<rightharpoonup> entry"
  proto :: "entry option"
  promises :: "(string \<times> pstate) list"
  trace :: "tev list"

definition init :: state where
  "init = \<lparr> ffprobe_cache = Map.empty, proto = None, promises = [], trace = [] \<rparr>"

text \<open>\<open>ffprobe_cache={}\<close>: a new object, with no own property and the original prototype.\<close>

definition clearFFprobeCache :: "state \<Rightarrow> state" where
  "clearFFprobeCache s = s\<lparr> ffprobe_cache := Map.empty, proto := None \<rparr>"

subsection \<open>Reading and writing the cache object\<close>

text \<open>The string-named properties of \<open>Object.prototype\<close> (besides \<open>__proto__\<close>) and of \<open>Promise.prototype\<close>.\<close>

definition object_prototype_names :: "string list" where
  "object_prototype_names =
     [''constructor'', ''__defineGetter__'', ''__defineSetter__'', ''hasOwnProperty'',
      ''__lookupGetter__'', ''__lookupSetter__'', ''isPrototypeOf'', ''propertyIsEnumerable'',
      ''toString'', ''valueOf'', ''toLocaleString'']"

definition promise_prototype_names :: "string list" where
  "promise_prototype_names = [''then'', ''catch'', ''finally'']"

text \<open>The properties of a metadata object whose value is truthy.\<close>

definition truthy_fields :: "metadata \<Rightarrow> string list" where
  "truthy_fields m =
     map fst (filter snd
       [(''codec'', codec m \<noteq> None \<and> codec m \<noteq> Some []),
        (''format'', format m \<noteq> None \<and> format m \<noteq> Some []),
        (''size'', size_m m \<noteq> None \<and> size_m m \<noteq> Some 0),
        (''bit_rate'', bit_rate m \<noteq> None \<and> bit_rate m \<noteq> Some 0),
        (''sample_rate'', sample_rate m \<noteq> None \<and> sample_rate m \<noteq> Some 0),
        (''bit_depth'', bit_depth m \<noteq> None \<and> bit_depth m \<noteq> Some 0),
        (''channels'', channels m \<noteq> None \<and> channels m \<noteq> Some 0),
        (''duration'', duration m \<noteq> None \<and> duration m \<noteq> Some 0),
        (''title'', truthy (title m)), (''album'', truthy (album m)),
        (''artist'', truthy (artist m)),
        (''year'', year m \<noteq> None \<and> year m \<noteq> Some 0),
        (''genre'', truthy (genre m))])"

text \<open>
  The truthy value that the cache inherits under a name, \<open>None\<close> when there is none or it
  is falsy. \<open>__proto__\<close> reads the prototype itself. When an \<open>Error\<close> or the blocking
  helper's result has been made the prototype, only what it inherits from
  \<open>Object.prototype\<close> is known: the properties of its own are those of objects made
  outside the repository and are not modelled.
\<close>

definition inherited :: "state \<Rightarrow> string \<Rightarrow> entry option" where
  "inherited s name =
     (if name = ''__proto__''
      then Some (case proto s of None \<Rightarrow> Inherited name | Some e \<Rightarrow> e)
      else if name \<in> set object_prototype_names then Some (Inherited name)
      else (case proto s of
              Some (Promise p) \<Rightarrow>
                if name \<in> set promise_prototype_names then Some (Inherited name) else None
            | Some (Info m) \<Rightarrow>
                if name \<in> set (truthy_fields m) then Some (Inherited name) else None
            | _ \<Rightarrow> None))"

text \<open>The read \<open>ffprobe_cache[path]\<close>, when it is truthy.\<close>

definition lookup :: "state \<Rightarrow> string \<Rightarrow> entry option" where
  "lookup s path =
     (case ffprobe_cache s path of Some x \<Rightarrow> Some x | None \<Rightarrow> inherited s path)"

text \<open>
  The assignment \<open>ffprobe_cache[path]=v\<close> of an object \<open>v\<close>: under \<open>__proto__\<close> the setter
  of \<open>Object.prototype\<close> makes \<open>v\<close> the prototype, under any other name \<open>v\<close> becomes an own
  property.
\<close>

definition store :: "state \<Rightarrow> string \<Rightarrow> entry \<Rightarrow> state" where
  "store s path v =
     (if path = ''__proto__'' then s\<lparr> proto := Some v \<rparr>
      else s\<lparr> ffprobe_cache := (ffprobe_cache s)(path \<mapsto> v) \<rparr>)"

text \<open>
  The call \<open>ffprobe_cache.hasOwnProperty(path)\<close>: a TypeError (\<open>None\<close>) when
  \<open>hasOwnProperty\<close> is itself an own property of the cache, which is then a stored object
  and not a function.
\<close>

definition hasOwnProperty :: "state \<Rightarrow> string \<Rightarrow> bool option" where
  "hasOwnProperty s path =
     (if ffprobe_cache s ''hasOwnProperty'' \<noteq> None then None
      else Some (ffprobe_cache s path \<noteq> None))"

subsection \<open>The functions of the module\<close>

definition getArgs :: "string \<Rightarrow> string list" where
  "getArgs path =
     [''-v'', ''error'', ''-select_streams'', ''a:0'', ''-show_streams'', ''-show_format'',
      ''-of'', ''json'', path]"

text \<open>\<open>ffprobe_fail\<close> stores the error under the path and throws it.\<close>

definition ffprobe_fail :: "collab \<Rightarrow> state \<Rightarrow> string \<Rightarrow> cp_result \<Rightarrow> perror \<times> state" where
  "ffprobe_fail c s path obj =
     (let extra = (if stderr obj \<noteq> [] then Some (limitString c (''STDERR:'' @ [CHR 0x0A] @ stderr obj) 500)
                   else None);
          e = InvocationError (error obj) extra path
      in (e, store s path (Err e)))"

text \<open>
  \<open>ffprobe_success\<close> throws (\<open>Inl\<close>) without touching the cache, or stores the metadata
  under the path and returns it.
\<close>

definition ffprobe_success ::
  "collab \<Rightarrow> state \<Rightarrow> string \<Rightarrow> cp_result \<Rightarrow> (perror + metadata) \<times> state" where
  "ffprobe_success c s path obj =
     (case tryJsonParse c (stdout obj) of
        None \<Rightarrow> (Inl (UnexpectedValue path obj), s)
      | Some info \<Rightarrow>
          if \<not> truthy info then (Inl (UnexpectedValue path obj), s)
          else
            (case (get_prop info ''streams'', get_prop info ''format'') of
               (Some (JArr (s0 # rest)), Some f0) \<Rightarrow>
                 if \<not> truthy f0 then (Inl (MissingData path info), s)
                 else
                   (case extract_fields c s0 f0 of
                      None \<Rightarrow> (Inl (ExtractFailed info), s)
                    | Some m \<Rightarrow> (Inr m, store s path (Info m)))
             | _ \<Rightarrow> (Inl (MissingData path info), s)))"

text \<open>
  What a call of \<open>ffprobe\<close> gives: the value read from the cache (a promise, or a stored
  object), a fresh promise rejected with the stored error, or the TypeError of the
  \<open>hasOwnProperty\<close> call, thrown before anything else is done.
\<close>

datatype retval = Returned entry | Rejected perror | TypeErrorThrown

definition ffprobe :: "state \<Rightarrow> string \<Rightarrow> nat option \<Rightarrow> retval \<times> state" where
  "ffprobe s path timeout =
     (case hasOwnProperty s path of
        None \<Rightarrow> (TypeErrorThrown, s)
      | Some False \<Rightarrow>
          (let s' = (store s path (Promise (length (promises s))))
                      \<lparr> promises := promises s @ [(path, PPending)],
                        trace := Spawn path (getArgs path) timeout # trace s \<rparr>
           in (Returned (the (lookup s' path)), s'))
      | Some True \<Rightarrow>
          (case the (lookup s path) of
             Err e \<Rightarrow> (Rejected e, s)
           | x \<Rightarrow> (Returned x, s)))"

text \<open>
  The tool's process behind promise \<open>p\<close> ends: the helper's promise resolves or rejects
  with \<open>obj\<close>, the handler given to \<open>then\<close> runs, and the promise in the cache settles
  with what the handler returned or threw. A promise settles once.
\<close>

datatype outcome = Resolves cp_result | Rejects cp_result

definition settle :: "collab \<Rightarrow> state \<Rightarrow> nat \<Rightarrow> outcome \<Rightarrow> state" where
  "settle c s p out =
     (if p < length (promises s) \<and> snd (promises s ! p) = PPending then
        (let path = fst (promises s ! p);
             (st, s') = (case out of
                           Resolves obj \<Rightarrow>
                             (case ffprobe_success c s path obj of
                                (Inl e, s1) \<Rightarrow> (PRejected e, s1)
                              | (Inr m, s1) \<Rightarrow> (PFulfilled m, s1))
                         | Rejects obj \<Rightarrow>
                             (case ffprobe_fail c s path obj of (e, s1) \<Rightarrow> (PRejected e, s1)))
         in s'\<lparr> promises := (promises s')[p := (path, st)], trace := Exit path # trace s' \<rparr>)
      else s)"

text \<open>
  \<open>ffprobe.sync\<close>, given what the blocking helper does if it is called: it returns an
  object, or throws an \<open>Error\<close>. The result is \<open>Inl\<close> for a throw. The process starts and
  ends within the call.
\<close>

datatype sync_outcome = SyncReturns cp_result | SyncThrows string

definition ffprobe_sync ::
  "state \<Rightarrow> string \<Rightarrow> nat option \<Rightarrow> sync_outcome \<Rightarrow> (perror + entry) \<times> state" where
  "ffprobe_sync s path timeout out =
     (let invoke = (case lookup s path of
                      None \<Rightarrow> True
                    | Some (Promise p) \<Rightarrow> True
                    | Some y \<Rightarrow> False);
          x = (if invoke
               then (case out of SyncReturns r \<Rightarrow> Raw r | SyncThrows msg \<Rightarrow> Err (ExecSyncError msg))
               else the (lookup s path));
          s' = (if invoke
                then (store s path x)
                       \<lparr> trace := Exit path # Spawn path (getArgs path) timeout # trace s \<rparr>
                else s)
      in (case x of Err e \<Rightarrow> (Inl e, s') | _ \<Rightarrow> (Inr x, s')))"

subsection \<open>Interleavings\<close>

datatype event =
    CallProbe string "nat option"
  | CallSync string "nat option" sync_outcome
  | Settle nat outcome
  | ClearCache

fun step :: "collab \<Rightarrow> state \<Rightarrow> event \<Rightarrow> state" where
  "step c s (CallProbe path timeout) = snd (ffprobe s path timeout)"
| "step c s (CallSync path timeout out) = snd (ffprobe_sync s path timeout out)"
| "step c s (Settle p out) = settle c s p out"
| "step c s ClearCache = clearFFprobeCache s"

definition run :: "collab \<Rightarrow> state \<Rightarrow> event list \<Rightarrow> state" where
  "run c s evs = foldl (step c) s evs"



subsection \<open>The timer\<close>

text \<open>
  \<open>setInterval(clearFFprobeCache, 60000)\<close>: with the time in milliseconds since the module
  was set up, the timer fires at every multiple of the period. \<open>elapse s now d\<close> is the
  state after \<open>d\<close> ms have passed from time \<open>now\<close> with no request and no completion.
\<close>

definition clear_period :: nat where
  "clear_period = 60000"

definition timer_fires :: "nat \<Rightarrow> nat \<Rightarrow> bool" where
  "timer_fires now d = (now div clear_period < (now + d) div clear_period)"

definition elapse :: "state \<Rightarrow> nat \<Rightarrow> nat \<Rightarrow> state" where
  "elapse s now d = (if timer_fires now d then clearFFprobeCache s else s)"

subsection \<open>Counting invocations\<close>

fun spawned :: "string \<Rightarrow> tev \<Rightarrow> bool" where
  "spawned path (Spawn p args timeout) = (p = path)"
| "spawned path (Exit p) = False"

definition invocations :: "state \<Rightarrow> string \<Rightarrow> nat" where
  "invocations s path = length (filter (spawned path) (trace s))"

text \<open>The processes for a path that have started and not ended, after a trace.\<close>

fun running :: "tev list \<Rightarrow> string \<Rightarrow> nat" where
  "running [] path = 0"
| "running (Spawn p args timeout # tr) path = (if p = path then Suc (running tr path) else running tr path)"
| "running (Exit p # tr) path = (if p = path then running tr path - 1 else running tr path)"

text \<open>The largest number of them at any moment of the trace.\<close>

fun peak :: "tev list \<Rightarrow> string \<Rightarrow> nat" where
  "peak [] path = 0"
| "peak (e # tr) path = max (running (e # tr) path) (peak tr path)"

text \<open>The pending asynchronous operations for a path.\<close>

definition in_flight :: "state \<Rightarrow> string \<Rightarrow> nat" where
  "in_flight s path = length (filter (\<lambda>q. q = (path, PPending)) (promises s))"

text \<open>The read \<open>cX.keysToLower(v).k\<close> of the \<open>try\<close> block.\<close>

definition field_of :: "collab \<Rightarrow> json \<Rightarrow> string \<Rightarrow> json option" where
  "field_of c v k = Option.bind (keysToLower c v) (\<lambda>l. get_prop l k)"

text \<open>The test of the second \<open>throw\<close>: a non-empty \<open>streams\<close> array and a truthy \<open>format\<close>.\<close>

definition has_streams_and_format :: "json \<Rightarrow> bool" where
  "has_streams_and_format info =
     (case (get_prop info ''streams'', get_prop info ''format'') of
        (Some (JArr (s0 # rest)), Some f0) \<Rightarrow> truthy f0
      | _ \<Rightarrow> False)"

subsection \<open>Entries that are not promises, and the coalescing invariant\<close>

text \<open>An entry that is a stored object or error, not a promise.\<close>

fun settled :: "entry \<Rightarrow> bool" where
  "settled (Promise p) = False"
| "settled x = True"

text \<open>
  For every path: at most one pending operation, as many running processes at the end of
  the trace as pending operations, never more than two processes at once, and no pending
  operation for a path without an own property in the cache.
\<close>

definition coalesced :: "state \<Rightarrow> bool" where
  "coalesced s =
     (\<forall>path. in_flight s path \<le> 1 \<and> running (trace s) path = in_flight s path \<and>
             peak (trace s) path \<le> 2 \<and> (ffprobe_cache s path = None \<longrightarrow> in_flight s path = 0))"

text \<open>The events of the runs with coalescing: no clearing, no \<open>ffprobe\<close> call for \<open>__proto__\<close>.\<close>

fun coalescing_event :: "event \<Rightarrow> bool" where
  "coalescing_event (CallProbe path timeout) = (path \<noteq> ''__proto__'')"
| "coalescing_event (CallSync path timeout out) = True"
| "coalescing_event (Settle p out) = True"
| "coalescing_event ClearCache = False"

section \<open>Example inputs\<close>

text \<open>The well-formed result of the spec's testable property, and the record it names.\<close>

definition example_info :: json where
  "example_info =
     JObj [(''streams'', JArr [JObj [(''codec_name'', JStr ''aac''), (''sample_rate'', JStr ''44100'')]]),
           (''format'', JObj [(''format_name'', JStr ''hls,applehttp''), (''size'', JStr ''1024''),
                             (''tags'', JObj [(''Artist'', JStr ''X''), (''Date'', JStr ''2001-05-01'')])])]"

definition example_metadata :: metadata where
  "example_metadata =
     \<lparr> codec = Some ''aac'', format = Some ''hls'', size_m = Some 1024, bit_rate = None,
       sample_rate = Some 44100, bit_depth = None, channels = None, duration = None,
       title = JNull, album = JNull, artist = JStr ''X'', year = Some 2001, genre = JNull \<rparr>"

text \<open>A result whose six numeric fields are the string \<open>0\<close>, and one with no format name.\<close>

definition zeros_stream :: json where
  "zeros_stream =
     JObj [(''codec_name'', JStr ''mp3''), (''sample_rate'', JStr ''0''),
           (''bits_per_raw_sample'', JStr ''0''), (''channels'', JStr ''0''),
           (''duration'', JStr ''0'')]"

definition zeros_format :: json where
  "zeros_format =
     JObj [(''format_name'', JStr ''mp3''), (''size'', JStr ''0''), (''bit_rate'', JStr ''0'')]"

definition zeros_info :: json where
  "zeros_info = JObj [(''streams'', JArr [zeros_stream]), (''format'', zeros_format)]"

definition zeros_metadata :: metadata where
  "zeros_metadata =
     \<lparr> codec = Some ''mp3'', format = Some ''mp3'', size_m = None, bit_rate = None,
       sample_rate = None, bit_depth = None, channels = None, duration = None,
       title = JNull, album = JNull, artist = JNull, year = None, genre = JNull \<rparr>"

definition nameless_info :: json where
  "nameless_info =
     JObj [(''streams'', JArr [JObj [(''codec_name'', JStr ''mp3'')]]),
           (''format'', JObj [(''size'', JStr ''1024'')])]"

text \<open>
  Collaborators for the examples: three outputs that parse (to the values above) and
  everything else unparseable.
\<close>

definition example_collab :: collab where
  "example_collab =
     \<lparr> tryJsonParse = map_of [(''example'', example_info), (''zeros'', zeros_info),
                              (''nameless'', nameless_info)],
       keysToLower_other = (\<lambda>v. None),
       limitString = (\<lambda>s n. take n s),
       utc_offset = 0,
       year_other = (\<lambda>v. None) \<rparr>"

definition tool_output :: "string \<Rightarrow> cp_result" where
  "tool_output text = \<lparr> stdout = text, stderr = [], error = [] \<rparr>"

definition tool_failure :: "string \<Rightarrow> cp_result" where
  "tool_failure msg = \<lparr> stdout = [], stderr = msg, error = ''Command failed'' \<rparr>"

section \<open>Evaluation lemmas\<close>

lemmas parse_defs =
  parseInt_def parse_int_str_def is_space_def is_digit_def digit_value_def digits_value_def

lemma lower_examples:
  "toLowerCase ''codec_name'' = ''codec_name''" "toLowerCase ''sample_rate'' = ''sample_rate''"
  "toLowerCase ''format_name'' = ''format_name''" "toLowerCase ''size'' = ''size''"
  "toLowerCase ''tags'' = ''tags''" "toLowerCase ''Artist'' = ''artist''"
  "toLowerCase ''Date'' = ''date''" "toLowerCase ''aac'' = ''aac''"
  "toLowerCase ''hls,applehttp'' = ''hls,applehttp''" "toLowerCase ''channels'' = ''channels''"
  "toLowerCase ''mp3'' = ''mp3''" "toLowerCase ''bit_rate'' = ''bit_rate''"
  "toLowerCase ''bits_per_raw_sample'' = ''bits_per_raw_sample''"
  "toLowerCase ''duration'' = ''duration''"
  by code_simp+

lemma parse_examples:
  "parseInt (JStr ''1024'') = Some 1024" "parseInt (JStr ''44100'') = Some 44100"
  "parseInt JUndefined = None" "parseInt (JStr ''0'') = Some 0"
  by (simp_all add: parse_defs)

lemma iso_date_example: "iso_date ''2001-05-01'' = Some (2001, 5, 1)"
  by (simp add: iso_date_def decimal_def is_digit_def digit_value_def digits_value_def
        days_in_month_def)

lemma year_examples:
  "getFullYear c (JStr ''2001-05-01'') = Some 2001" "getFullYear c JUndefined = None"
  by (simp_all add: getFullYear_def iso_date_example)

lemma split_examples: "split_first ''hls,applehttp'' = ''hls''" "split_first ''mp3'' = ''mp3''"
  by (simp_all add: split_first_def)

lemma extract_fields_example:
  "extract_fields c (JObj [(''codec_name'', JStr ''aac''), (''sample_rate'', JStr ''44100'')])
     (JObj [(''format_name'', JStr ''hls,applehttp''), (''size'', JStr ''1024''),
            (''tags'', JObj [(''Artist'', JStr ''X''), (''Date'', JStr ''2001-05-01'')])])
   = Some example_metadata"
  by (simp add: extract_fields_def lower_examples parse_examples year_examples split_examples
        js_or_def example_metadata_def)

lemma example_parses:
  "tryJsonParse example_collab (stdout (tool_output ''example'')) = Some example_info"
  "tryJsonParse example_collab (stdout (tool_output ''garbage'')) = None"
  by (simp_all add: example_collab_def tool_output_def)

section \<open>Extraction\<close>

text \<open>
  C7. When the tool's output parses to the example result (one stream with codec name aac
  and sample rate "44100"; format name "hls,applehttp", size "1024", tags Artist "X" and
  Date "2001-05-01"), \<open>ffprobe_success\<close> returns, and assigns to the cache under the path,
  the record with codec aac, format hls, sample rate 44100, size 1024, artist X and year
  2001; the fields the input does not give are null. This holds in every time zone.
\<close>

theorem extraction_example:
  assumes "tryJsonParse c (stdout obj) = Some example_info"
  shows "ffprobe_success c s path obj = (Inr example_metadata, store s path (Info example_metadata))"
  using assms by (simp add: ffprobe_success_def example_info_def extract_fields_example)

theorem extraction_example_witness:
  "tryJsonParse example_collab (stdout (tool_output ''example'')) = Some example_info \<and>
   fst (ffprobe_success example_collab init ''song.m4a'' (tool_output ''example'')) = Inr example_metadata \<and>
   format example_metadata = Some ''hls'' \<and> year example_metadata = Some 2001"
proof -
  have h: "tryJsonParse example_collab (stdout (tool_output ''example'')) = Some example_info"
    by (simp add: example_collab_def tool_output_def)
  from extraction_example[OF h, of init "''song.m4a''"] h show ?thesis
    by (simp add: example_metadata_def)
qed

lemma extract_fields_zeros: "extract_fields c zeros_stream zeros_format = Some zeros_metadata"
  by (simp add: extract_fields_def zeros_stream_def zeros_format_def zeros_metadata_def
        lower_examples parse_examples year_examples split_examples js_or_def)

lemma or_null_not_zero: "or_null x \<noteq> Some 0" "Some 0 \<noteq> or_null x"
  by (cases x; auto)+

lemma ffprobe_success_cases:
  "(\<exists>e. ffprobe_success c s path obj = (Inl e, s) \<and> is_ExtractionError e) \<or>
   (\<exists>m. ffprobe_success c s path obj = (Inr m, store s path (Info m)))"
  unfolding ffprobe_success_def
  by (auto split: option.splits json.splits list.splits)

lemma ffprobe_success_InrD:
  assumes "fst (ffprobe_success c s path obj) = Inr m"
  shows "\<exists>info s0 rest f0. tryJsonParse c (stdout obj) = Some info \<and>
           get_prop info ''streams'' = Some (JArr (s0 # rest)) \<and>
           get_prop info ''format'' = Some f0 \<and> extract_fields c s0 f0 = Some m"
  using assms unfolding ffprobe_success_def
  by (auto split: option.splits if_splits json.splits list.splits)

lemma extract_fields_numeric:
  assumes "extract_fields c s0 f0 = Some m"
  shows "\<exists>v1 v2 v3 v4 v5 v6.
           field_of c f0 ''size'' = Some v1 \<and> size_m m = or_null (parseInt v1) \<and>
           field_of c f0 ''bit_rate'' = Some v2 \<and> bit_rate m = or_null (parseInt v2) \<and>
           field_of c s0 ''sample_rate'' = Some v3 \<and> sample_rate m = or_null (parseInt v3) \<and>
           field_of c s0 ''bits_per_raw_sample'' = Some v4 \<and> bit_depth m = or_null (parseInt v4) \<and>
           field_of c s0 ''channels'' = Some v5 \<and> channels m = or_null (parseInt v5) \<and>
           field_of c s0 ''duration'' = Some v6 \<and> duration m = or_null (parseInt v6)"
  using assms unfolding extract_fields_def field_of_def
  by (auto simp: bind_eq_Some_conv)

lemma extract_fields_format:
  assumes "extract_fields c s0 f0 = Some m"
  shows "\<exists>x. field_of c f0 ''format_name'' = Some (JStr x) \<and>
             format m = Some (split_first (toLowerCase x))"
  using assms unfolding extract_fields_def field_of_def
  apply (clarsimp simp: bind_eq_Some_conv)
  subgoal for s f tags t cn fn
    by (cases fn) auto
  done

text \<open>
  C9. In a record that \<open>ffprobe_success\<close> returns, each of the six numeric fields is null
  whenever the field it is read from is a string whose \<open>parseInt\<close> is 0 (size and bit
  rate from the format block, the other four from the first stream, keys in lower case),
  and none of the six is ever the number 0: a zero cannot be told from a failed parse.
\<close>

theorem zero_is_null:
  assumes "fst (ffprobe_success c s path obj) = Inr m"
    and "tryJsonParse c (stdout obj) = Some info"
    and "get_prop info ''streams'' = Some (JArr (s0 # rest))"
    and "get_prop info ''format'' = Some f0"
  shows "(field_of c f0 ''size'' = Some (JStr x1) \<and> parseInt (JStr x1) = Some 0 \<longrightarrow> size_m m = None) \<and>
         (field_of c f0 ''bit_rate'' = Some (JStr x2) \<and> parseInt (JStr x2) = Some 0 \<longrightarrow> bit_rate m = None) \<and>
         (field_of c s0 ''sample_rate'' = Some (JStr x3) \<and> parseInt (JStr x3) = Some 0 \<longrightarrow> sample_rate m = None) \<and>
         (field_of c s0 ''bits_per_raw_sample'' = Some (JStr x4) \<and> parseInt (JStr x4) = Some 0 \<longrightarrow> bit_depth m = None) \<and>
         (field_of c s0 ''channels'' = Some (JStr x5) \<and> parseInt (JStr x5) = Some 0 \<longrightarrow> channels m = None) \<and>
         (field_of c s0 ''duration'' = Some (JStr x6) \<and> parseInt (JStr x6) = Some 0 \<longrightarrow> duration m = None) \<and>
         size_m m \<noteq> Some 0 \<and> bit_rate m \<noteq> Some 0 \<and> sample_rate m \<noteq> Some 0 \<and>
         bit_depth m \<noteq> Some 0 \<and> channels m \<noteq> Some 0 \<and> duration m \<noteq> Some 0"
proof -
  from ffprobe_success_InrD[OF assms(1)] assms(2-4)
  have "extract_fields c s0 f0 = Some m" by auto
  from extract_fields_numeric[OF this] show ?thesis
    by (auto simp: or_null_not_zero)
qed

theorem zero_is_null_witness:
  "fst (ffprobe_success example_collab init ''a.mp3'' (tool_output ''zeros'')) = Inr zeros_metadata \<and>
   tryJsonParse example_collab (stdout (tool_output ''zeros'')) = Some zeros_info \<and>
   field_of example_collab zeros_format ''size'' = Some (JStr ''0'') \<and>
   field_of example_collab zeros_format ''bit_rate'' = Some (JStr ''0'') \<and>
   field_of example_collab zeros_stream ''sample_rate'' = Some (JStr ''0'') \<and>
   field_of example_collab zeros_stream ''bits_per_raw_sample'' = Some (JStr ''0'') \<and>
   field_of example_collab zeros_stream ''channels'' = Some (JStr ''0'') \<and>
   field_of example_collab zeros_stream ''duration'' = Some (JStr ''0'') \<and>
   parseInt (JStr ''0'') = Some 0 \<and>
   size_m zeros_metadata = None \<and> bit_rate zeros_metadata = None \<and>
   sample_rate zeros_metadata = None \<and> bit_depth zeros_metadata = None \<and>
   channels zeros_metadata = None \<and> duration zeros_metadata = None"
proof -
  have p: "tryJsonParse example_collab (stdout (tool_output ''zeros'')) = Some zeros_info"
    by (simp add: example_collab_def tool_output_def)
  have g1: "get_prop zeros_info ''streams'' = Some (JArr (zeros_stream # []))"
    and g2: "get_prop zeros_info ''format'' = Some zeros_format"
    by (simp_all add: zeros_info_def)
  have ti: "truthy zeros_info" "truthy zeros_format"
    by (simp_all add: zeros_info_def zeros_format_def)
  have r: "fst (ffprobe_success example_collab init ''a.mp3'' (tool_output ''zeros'')) = Inr zeros_metadata"
    using p g1 g2 ti
    by (simp add: ffprobe_success_def extract_fields_zeros)
  have f: "field_of example_collab zeros_format ''size'' = Some (JStr ''0'')"
    "field_of example_collab zeros_format ''bit_rate'' = Some (JStr ''0'')"
    "field_of example_collab zeros_stream ''sample_rate'' = Some (JStr ''0'')"
    "field_of example_collab zeros_stream ''bits_per_raw_sample'' = Some (JStr ''0'')"
    "field_of example_collab zeros_stream ''channels'' = Some (JStr ''0'')"
    "field_of example_collab zeros_stream ''duration'' = Some (JStr ''0'')"
    by (simp_all add: field_of_def zeros_stream_def zeros_format_def lower_examples)
  from zero_is_null[OF r p g1 g2, of "''0''" "''0''" "''0''" "''0''" "''0''" "''0''"] f parse_examples(4)
  have "size_m zeros_metadata = None \<and> bit_rate zeros_metadata = None \<and>
        sample_rate zeros_metadata = None \<and> bit_depth zeros_metadata = None \<and>
        channels zeros_metadata = None \<and> duration zeros_metadata = None"
    by blast
  with r p f parse_examples(4) show ?thesis by blast
qed

lemma map_of_rev_lowered_None:
  "k \<notin> toLowerCase ` fst ` set kvs \<Longrightarrow>
   map_of (rev (map (\<lambda>(k, v). (toLowerCase k, v)) kvs)) k = None"
  by (auto simp: map_of_eq_None_iff image_iff split: prod.splits)

lemma extract_fields_nameless:
  assumes "''format_name'' \<notin> toLowerCase ` fst ` set fkv"
  shows "extract_fields c s0 (JObj fkv) = None"
proof (cases "extract_fields c s0 (JObj fkv)")
  case None
  then show ?thesis .
next
  case (Some m)
  from extract_fields_format[OF Some] obtain x where
    "field_of c (JObj fkv) ''format_name'' = Some (JStr x)" by blast
  then show ?thesis
    using map_of_rev_lowered_None[OF assms] by (simp add: field_of_def)
qed

text \<open>
  C10. When the parsed result has a non-empty streams array and a format block that is an
  object with no \<open>format_name\<close> key in any letter case, \<open>ffprobe_success\<close> throws the
  error of its \<open>catch\<close> block and leaves the cache as it was; and the format of a record
  that it returns is never null.
\<close>

theorem format_never_null:
  "(tryJsonParse c (stdout obj) = Some info \<and>
      get_prop info ''streams'' = Some (JArr (s0 # rest)) \<and>
      get_prop info ''format'' = Some (JObj fkv) \<and>
      ''format_name'' \<notin> toLowerCase ` fst ` set fkv
    \<longrightarrow> ffprobe_success c s path obj = (Inl (ExtractFailed info), s)) \<and>
   (fst (ffprobe_success c s path obj) = Inr m \<longrightarrow> format m \<noteq> None)"
proof (intro conjI impI)
  assume a: "tryJsonParse c (stdout obj) = Some info \<and>
      get_prop info ''streams'' = Some (JArr (s0 # rest)) \<and>
      get_prop info ''format'' = Some (JObj fkv) \<and>
      ''format_name'' \<notin> toLowerCase ` fst ` set fkv"
  then have "truthy info"
    by (cases info) (auto split: if_splits)
  moreover have "extract_fields c s0 (JObj fkv) = None"
    using a by (simp add: extract_fields_nameless)
  ultimately show "ffprobe_success c s path obj = (Inl (ExtractFailed info), s)"
    using a by (simp add: ffprobe_success_def)
next
  assume "fst (ffprobe_success c s path obj) = Inr m"
  from ffprobe_success_InrD[OF this] obtain s0 f0 where "extract_fields c s0 f0 = Some m"
    by blast
  from extract_fields_format[OF this] show "format m \<noteq> None" by auto
qed

theorem format_never_null_witness:
  "tryJsonParse example_collab (stdout (tool_output ''nameless'')) = Some nameless_info \<and>
   get_prop nameless_info ''streams'' = Some (JArr [JObj [(''codec_name'', JStr ''mp3'')]]) \<and>
   get_prop nameless_info ''format'' = Some (JObj [(''size'', JStr ''1024'')]) \<and>
   ffprobe_success example_collab init ''a.mp3'' (tool_output ''nameless'') =
     (Inl (ExtractFailed nameless_info), init) \<and>
   fst (ffprobe_success example_collab init ''a.mp3'' (tool_output ''example'')) = Inr example_metadata \<and>
   format example_metadata \<noteq> None"
proof -
  have p: "tryJsonParse example_collab (stdout (tool_output ''nameless'')) = Some nameless_info"
    by (simp add: example_collab_def tool_output_def)
  have g1: "get_prop nameless_info ''streams'' = Some (JArr (JObj [(''codec_name'', JStr ''mp3'')] # []))"
    and g2: "get_prop nameless_info ''format'' = Some (JObj [(''size'', JStr ''1024'')])"
    by (simp_all add: nameless_info_def)
  have n: "''format_name'' \<notin> toLowerCase ` fst ` set [(''size'', JStr ''1024'')]"
    by (simp add: lower_examples)
  have q: "tryJsonParse example_collab (stdout (tool_output ''example'')) = Some example_info"
    by (simp add: example_collab_def tool_output_def)
  have r: "fst (ffprobe_success example_collab init ''a.mp3'' (tool_output ''example'')) = Inr example_metadata"
    using q by (simp add: ffprobe_success_def example_info_def extract_fields_example)
  from format_never_null[of example_collab "tool_output ''nameless''" nameless_info _ "[]" _ init "''a.mp3''"]
    p g1 g2 n
  have 1: "ffprobe_success example_collab init ''a.mp3'' (tool_output ''nameless'') =
     (Inl (ExtractFailed nameless_info), init)" by blast
  from format_never_null[of example_collab "tool_output ''example''" _ _ _ _ init "''a.mp3''" example_metadata] r
  have 2: "format example_metadata \<noteq> None" by blast
  from p g1 g2 1 r 2 show ?thesis by simp
qed


text \<open>
  Output that does not parse, parses to a falsy value, or lacks the streams array, a first
  stream or the format block makes \<open>ffprobe_success\<close> throw an extraction error and
  leave the cache as it was.
\<close>

lemma ffprobe_success_unparseable:
  "tryJsonParse c (stdout obj) = None \<Longrightarrow>
   ffprobe_success c s path obj = (Inl (UnexpectedValue path obj), s)"
  by (simp add: ffprobe_success_def)

lemma ffprobe_success_falsy:
  "tryJsonParse c (stdout obj) = Some info \<Longrightarrow> \<not> truthy info \<Longrightarrow>
   ffprobe_success c s path obj = (Inl (UnexpectedValue path obj), s)"
  by (simp add: ffprobe_success_def)

lemma ffprobe_success_incomplete:
  assumes "tryJsonParse c (stdout obj) = Some info" and "truthy info"
    and "\<not> has_streams_and_format info"
  shows "ffprobe_success c s path obj = (Inl (MissingData path info), s)"
proof (cases "get_prop info ''streams''")
  case None
  then show ?thesis using assms(1,2) by (simp add: ffprobe_success_def)
next
  case (Some v)
  show ?thesis
  proof (cases "\<exists>s0 rest. v = JArr (s0 # rest)")
    case False
    then show ?thesis using assms(1,2) Some
      by (cases v; simp add: ffprobe_success_def split: list.splits)
  next
    case True
    then obtain s0 rest where v: "v = JArr (s0 # rest)" by blast
    show ?thesis
    proof (cases "get_prop info ''format''")
      case None
      then show ?thesis using assms(1,2) Some v by (simp add: ffprobe_success_def)
    next
      case f: (Some f0)
      with assms(3) Some v have "\<not> truthy f0"
        by (simp add: has_streams_and_format_def)
      then show ?thesis using assms(1,2) Some v f by (simp add: ffprobe_success_def)
    qed
  qed
qed

lemma ffprobe_success_malformed:
  assumes "tryJsonParse c (stdout obj) = None \<or>
           (\<exists>info. tryJsonParse c (stdout obj) = Some info \<and> \<not> has_streams_and_format info)"
  shows "\<exists>e. ffprobe_success c s path obj = (Inl e, s) \<and> is_ExtractionError e"
proof (cases "tryJsonParse c (stdout obj)")
  case None
  from ffprobe_success_unparseable[OF this] show ?thesis by simp
next
  case (Some info)
  with assms have bad: "\<not> has_streams_and_format info" by simp
  show ?thesis
  proof (cases "truthy info")
    case False
    from ffprobe_success_falsy[OF Some this] show ?thesis by simp
  next
    case True
    from ffprobe_success_incomplete[OF Some this bad] show ?thesis by simp
  qed
qed


lemma ffprobe_success_example:
  "ffprobe_success example_collab s path (tool_output ''example'') =
     (Inr example_metadata, store s path (Info example_metadata))"
  using example_parses(1)
  by (simp add: ffprobe_success_def example_info_def extract_fields_example)

lemma ffprobe_success_garbage:
  "ffprobe_success example_collab s path (tool_output ''garbage'') =
     (Inl (UnexpectedValue path (tool_output ''garbage'')), s)"
  using example_parses(2) by (rule ffprobe_success_unparseable)

lemma example_nameless:
  "tryJsonParse example_collab (stdout (tool_output ''nameless'')) = Some nameless_info"
  by (simp add: example_collab_def tool_output_def)

lemma ffprobe_success_nameless:
  "ffprobe_success example_collab s path (tool_output ''nameless'') =
     (Inl (ExtractFailed nameless_info), s)"
proof -
  have "extract_fields example_collab (JObj [(''codec_name'', JStr ''mp3'')])
          (JObj [(''size'', JStr ''1024'')]) = None"
    by (rule extract_fields_nameless) (simp add: lower_examples)
  then show ?thesis
    using example_nameless by (simp add: ffprobe_success_def nameless_info_def)
qed

lemmas cache_defs =
  lookup_def store_def hasOwnProperty_def inherited_def object_prototype_names_def
  promise_prototype_names_def

lemmas run_simps = Let_def run_def ffprobe_def ffprobe_sync_def settle_def init_def clearFFprobeCache_def
  cache_defs
  ffprobe_success_example ffprobe_success_garbage

section \<open>How a call, a completion and a blocking request change the state\<close>

lemma store_fields [simp]:
  "promises (store s path v) = promises s" "trace (store s path v) = trace s"
  "path \<noteq> ''__proto__'' \<Longrightarrow> ffprobe_cache (store s path v) = (ffprobe_cache s)(path \<mapsto> v)"
  "path \<noteq> ''__proto__'' \<Longrightarrow> proto (store s path v) = proto s"
  "ffprobe_cache (store s ''__proto__'' v) = ffprobe_cache s"
  "proto (store s ''__proto__'' v) = Some v"
  by (simp_all add: store_def)

lemma store_other: "key \<noteq> path \<Longrightarrow> ffprobe_cache (store s path v) key = ffprobe_cache s key"
  by (simp add: store_def)

lemma store_keeps: "ffprobe_cache s key \<noteq> None \<Longrightarrow> ffprobe_cache (store s path v) key \<noteq> None"
  by (simp add: store_def)

lemma lookup_own: "ffprobe_cache s path = Some x \<Longrightarrow> lookup s path = Some x"
  by (simp add: lookup_def)

lemma lookup_store:
  "ffprobe_cache s path = None \<Longrightarrow> lookup (store s path v) path = Some v"
  by (cases "path = ''__proto__''") (simp_all add: lookup_def store_def inherited_def)

lemma inherited_other_fields [simp]:
  "inherited (s\<lparr> promises := ps \<rparr>) path = inherited s path"
  "inherited (s\<lparr> trace := tr \<rparr>) path = inherited s path"
  by (simp_all add: inherited_def)

lemma lookup_other_fields [simp]:
  "lookup (s\<lparr> promises := ps \<rparr>) path = lookup s path"
  "lookup (s\<lparr> trace := tr \<rparr>) path = lookup s path"
  by (simp_all add: lookup_def split: option.splits)

lemma settle_idle:
  "\<not> (p < length (promises s) \<and> snd (promises s ! p) = PPending) \<Longrightarrow> settle c s p out = s"
  unfolding settle_def by (simp only: if_False)

lemma settle_extraction_error:
  assumes "p < length (promises s)" and "promises s ! p = (path, PPending)"
    and "ffprobe_success c s path obj = (Inl e, s)"
  shows "settle c s p (Resolves obj) =
           s\<lparr> promises := (promises s)[p := (path, PRejected e)], trace := Exit path # trace s \<rparr>"
  using assms by (simp add: settle_def)

lemma settle_fulfilled:
  assumes "p < length (promises s)" and "promises s ! p = (path, PPending)"
    and "ffprobe_success c s path obj = (Inr m, store s path (Info m))"
  shows "settle c s p (Resolves obj) =
           (store s path (Info m))
             \<lparr> promises := (promises s)[p := (path, PFulfilled m)], trace := Exit path # trace s \<rparr>"
  using assms by (simp add: settle_def)

lemma settle_invocation_error:
  assumes "p < length (promises s)" and "promises s ! p = (path, PPending)"
  shows "settle c s p (Rejects obj) =
           (store s path (Err (fst (ffprobe_fail c s path obj))))
             \<lparr> promises := (promises s)[p := (path, PRejected (fst (ffprobe_fail c s path obj)))],
               trace := Exit path # trace s \<rparr>"
  using assms by (simp add: settle_def ffprobe_fail_def Let_def)

lemma settle_cases:
  assumes "p < length (promises s)" and "promises s ! p = (path, PPending)"
  shows "\<exists>st. st \<noteq> PPending \<and>
           (settle c s p out =
              s\<lparr> promises := (promises s)[p := (path, st)], trace := Exit path # trace s \<rparr> \<or>
            (\<exists>x. settle c s p out =
                 (store s path x)
                   \<lparr> promises := (promises s)[p := (path, st)], trace := Exit path # trace s \<rparr>))"
proof (cases out)
  case (Resolves obj)
  from ffprobe_success_cases[of c s path obj] show ?thesis
  proof (elim disjE exE conjE)
    fix e assume "ffprobe_success c s path obj = (Inl e, s)"
    from settle_extraction_error[OF assms this] Resolves show ?thesis
      by (intro exI[of _ "PRejected e"]) simp
  next
    fix m assume "ffprobe_success c s path obj = (Inr m, store s path (Info m))"
    from settle_fulfilled[OF assms this] Resolves show ?thesis
      by (intro exI[of _ "PFulfilled m"] conjI disjI2 exI[of _ "Info m"]) simp_all
  qed
next
  case (Rejects obj)
  from settle_invocation_error[OF assms, of c obj] Rejects show ?thesis
    by (intro exI[of _ "PRejected (fst (ffprobe_fail c s path obj))"] conjI disjI2
          exI[of _ "Err (fst (ffprobe_fail c s path obj))"]) simp_all
qed

lemma settled_entry: "settled x \<Longrightarrow> x \<noteq> Promise p"
  by (cases x) auto

lemma ffprobe_sync_hit:
  assumes "ffprobe_cache s path = Some x" and "settled x"
  shows "ffprobe_sync s path t out = (case x of Err e \<Rightarrow> Inl e | _ \<Rightarrow> Inr x, s)"
  using assms by (cases x) (simp_all add: ffprobe_sync_def lookup_own)

lemma ffprobe_sync_inherited:
  assumes "ffprobe_cache s path = None" and "inherited s path = Some (Inherited name)"
  shows "ffprobe_sync s path t out = (Inr (Inherited name), s)"
  using assms by (simp add: ffprobe_sync_def lookup_def)

lemma ffprobe_sync_runs:
  assumes "lookup s path = None \<or> lookup s path = Some (Promise p)"
  shows "ffprobe_sync s path t (SyncReturns r) =
           (Inr (Raw r),
            (store s path (Raw r))
              \<lparr> trace := Exit path # Spawn path (getArgs path) t # trace s \<rparr>)"
    and "ffprobe_sync s path t (SyncThrows msg) =
           (Inl (ExecSyncError msg),
            (store s path (Err (ExecSyncError msg)))
              \<lparr> trace := Exit path # Spawn path (getArgs path) t # trace s \<rparr>)"
  using assms by (auto simp: ffprobe_sync_def Let_def)

lemma ffprobe_sync_invokes:
  assumes "lookup s path = None \<or> lookup s path = Some (Promise p)"
  shows "invocations (snd (ffprobe_sync s path t out)) path = Suc (invocations s path) \<and>
         promises (snd (ffprobe_sync s path t out)) = promises s"
  using ffprobe_sync_runs[OF assms] by (cases out) (simp_all add: invocations_def)

lemma ffprobe_sync_state:
  "snd (ffprobe_sync s path t out) = s \<or>
   ((lookup s path = None \<or> (\<exists>p. lookup s path = Some (Promise p))) \<and>
    (\<exists>x. snd (ffprobe_sync s path t out) =
       (store s path x) \<lparr> trace := Exit path # Spawn path (getArgs path) t # trace s \<rparr>))"
proof (cases "lookup s path")
  case None
  then show ?thesis by (cases out) (auto simp: ffprobe_sync_def Let_def)
next
  case (Some y)
  then show ?thesis by (cases y; cases out) (auto simp: ffprobe_sync_def Let_def)
qed

lemma settle_other_path:
  assumes "ffprobe_cache s path = Some x" and "fst (promises s ! p) \<noteq> path"
  shows "ffprobe_cache (settle c s p out) path = Some x"
proof (cases "p < length (promises s) \<and> snd (promises s ! p) = PPending")
  case False
  then show ?thesis using assms(1) by (simp add: settle_idle)
next
  case True
  then have p: "p < length (promises s)" and pp: "promises s ! p = (fst (promises s ! p), PPending)"
    by (simp_all add: prod_eq_iff)
  from settle_cases[OF p pp, of c out] assms show ?thesis
    by (elim exE conjE disjE) (auto simp: store_other)
qed

section \<open>Asynchronous requests\<close>

lemma ffprobe_throws:
  "ffprobe_cache s ''hasOwnProperty'' = Some x \<Longrightarrow> ffprobe s path t = (TypeErrorThrown, s)"
  by (simp add: ffprobe_def hasOwnProperty_def)

lemma ffprobe_pending:
  "ffprobe_cache s path = Some (Promise p) \<Longrightarrow> ffprobe_cache s ''hasOwnProperty'' = None \<Longrightarrow>
   ffprobe s path t = (Returned (Promise p), s)"
  by (simp add: ffprobe_def hasOwnProperty_def lookup_own)

lemma ffprobe_present:
  "ffprobe_cache s path = Some x \<Longrightarrow> snd (ffprobe s path t) = s"
  by (cases x) (simp_all add: ffprobe_def hasOwnProperty_def lookup_own)

lemma ffprobe_absent:
  "ffprobe_cache s path = None \<Longrightarrow> ffprobe_cache s ''hasOwnProperty'' = None \<Longrightarrow>
   ffprobe s path t =
     (Returned (Promise (length (promises s))),
      (store s path (Promise (length (promises s))))
        \<lparr> promises := promises s @ [(path, PPending)],
          trace := Spawn path (getArgs path) t # trace s \<rparr>)"
  by (simp add: ffprobe_def hasOwnProperty_def Let_def lookup_store)

lemma ffprobe_state:
  "snd (ffprobe s path t) = s \<or>
   (ffprobe_cache s path = None \<and> ffprobe_cache s ''hasOwnProperty'' = None \<and>
    snd (ffprobe s path t) =
      (store s path (Promise (length (promises s))))
        \<lparr> promises := promises s @ [(path, PPending)],
          trace := Spawn path (getArgs path) t # trace s \<rparr>)"
proof (cases "ffprobe_cache s ''hasOwnProperty''")
  case (Some x)
  then show ?thesis by (simp add: ffprobe_throws)
next
  case None
  show ?thesis
  proof (cases "ffprobe_cache s path")
    case (Some x)
    then show ?thesis by (simp add: ffprobe_present)
  next
    case absent: None
    with None show ?thesis by (simp add: ffprobe_absent)
  qed
qed

section \<open>Runs that leave a key alone\<close>





section \<open>Coalescing of asynchronous requests\<close>




section \<open>Blocking requests\<close>

text \<open>
  C2. \<open>ffprobe.sync\<close> on a path with no entry runs the tool and stores and returns what
  the blocking helper returned, as it is: the cache then holds the helper's raw result,
  not a metadata record, and a later \<open>ffprobe\<close> call hands that raw result out, whereas
  \<open>ffprobe_success\<close> on the same output gives the metadata record.
\<close>

theorem ffprobe_sync_stores_raw:
  "fst (ffprobe_sync init ''a.mp3'' None (SyncReturns (tool_output ''example'')))
     = Inr (Raw (tool_output ''example'')) \<and>
   ffprobe_cache (snd (ffprobe_sync init ''a.mp3'' None (SyncReturns (tool_output ''example'')))) ''a.mp3''
     = Some (Raw (tool_output ''example'')) \<and>
   fst (ffprobe (snd (ffprobe_sync init ''a.mp3'' None (SyncReturns (tool_output ''example'')))) ''a.mp3'' None)
     = Returned (Raw (tool_output ''example'')) \<and>
   fst (ffprobe_success example_collab init ''a.mp3'' (tool_output ''example'')) = Inr example_metadata"
  by (simp add: run_simps)

text \<open>
  A name that the cache inherits is not probed by \<open>ffprobe.sync\<close>: the read gives the
  inherited value, which is returned as it is.
\<close>

lemma ffprobe_sync_inherited_name:
  "ffprobe_sync init ''constructor'' None out = (Inr (Inherited ''constructor''), init)"
  by (rule ffprobe_sync_inherited) (simp_all add: init_def cache_defs)

section \<open>Invocations in flight\<close>

text \<open>
  C3 as stated fails: after an \<open>ffprobe\<close> call and, while its operation is pending, an
  \<open>ffprobe.sync\<close> call for the same path, two processes of the tool for that path have
  run at the same time.
\<close>

theorem sync_overlaps_pending:
  "peak (trace (run example_collab init
      [CallProbe ''a.mp3'' None,
       CallSync ''a.mp3'' None (SyncReturns (tool_output ''example''))])) ''a.mp3'' = 2"
  by (simp add: run_simps)

lemma filter_update_count:
  "p < length xs \<Longrightarrow>
   length (filter P (xs[p := y])) + (if P (xs ! p) then 1 else 0) =
   length (filter P xs) + (if P y then 1 else 0)"
proof (induction xs arbitrary: p)
  case Nil
  then show ?case by simp
next
  case (Cons x xs)
  show ?case
  proof (cases p)
    case 0
    then show ?thesis by simp
  next
    case (Suc q)
    with Cons.prems have "q < length xs" by simp
    from Cons.IH[OF this] Suc show ?thesis by simp
  qed
qed

lemma coalesced_init: "coalesced init"
  by (simp add: coalesced_def init_def in_flight_def)

lemma coalesced_ffprobe:
  assumes "coalesced s" and "path \<noteq> ''__proto__''"
  shows "coalesced (snd (ffprobe s path t))"
proof -
  from ffprobe_state[of s path t] show ?thesis
  proof
    assume "snd (ffprobe s path t) = s"
    then show ?thesis using assms(1) by simp
  next
    assume a: "ffprobe_cache s path = None \<and> ffprobe_cache s ''hasOwnProperty'' = None \<and>
      snd (ffprobe s path t) =
        (store s path (Promise (length (promises s))))
          \<lparr> promises := promises s @ [(path, PPending)],
            trace := Spawn path (getArgs path) t # trace s \<rparr>"
    have idle: "in_flight s path = 0"
      using assms(1) a by (simp add: coalesced_def)
    show ?thesis
      unfolding coalesced_def
    proof (intro allI)
      fix q
      from assms(1) have q: "in_flight s q \<le> 1" "running (trace s) q = in_flight s q"
        "peak (trace s) q \<le> 2" "ffprobe_cache s q = None \<longrightarrow> in_flight s q = 0"
        by (simp_all add: coalesced_def)
      show "in_flight (snd (ffprobe s path t)) q \<le> 1 \<and>
            running (trace (snd (ffprobe s path t))) q = in_flight (snd (ffprobe s path t)) q \<and>
            peak (trace (snd (ffprobe s path t))) q \<le> 2 \<and>
            (ffprobe_cache (snd (ffprobe s path t)) q = None \<longrightarrow> in_flight (snd (ffprobe s path t)) q = 0)"
        using q idle a assms(2) by (cases "q = path") (auto simp: in_flight_def)
    qed
  qed
qed

lemma coalesced_ffprobe_sync:
  assumes "coalesced s"
  shows "coalesced (snd (ffprobe_sync s path t out))"
proof -
  from ffprobe_sync_state[of s path t out] show ?thesis
  proof
    assume "snd (ffprobe_sync s path t out) = s"
    then show ?thesis using assms by simp
  next
    assume "(lookup s path = None \<or> (\<exists>p. lookup s path = Some (Promise p))) \<and>
      (\<exists>x. snd (ffprobe_sync s path t out) =
         (store s path x) \<lparr> trace := Exit path # Spawn path (getArgs path) t # trace s \<rparr>)"
    then obtain x where a: "snd (ffprobe_sync s path t out) =
         (store s path x) \<lparr> trace := Exit path # Spawn path (getArgs path) t # trace s \<rparr>"
      by blast
    show ?thesis
      unfolding coalesced_def
    proof (intro allI)
      fix q
      from assms have q: "in_flight s q \<le> 1" "running (trace s) q = in_flight s q"
        "peak (trace s) q \<le> 2" "ffprobe_cache s q = None \<longrightarrow> in_flight s q = 0"
        by (simp_all add: coalesced_def)
      let ?s = "snd (ffprobe_sync s path t out)"
      have none: "ffprobe_cache ?s q = None \<longrightarrow> ffprobe_cache s q = None"
        by (auto simp: a store_def)
      show "in_flight ?s q \<le> 1 \<and> running (trace ?s) q = in_flight ?s q \<and> peak (trace ?s) q \<le> 2 \<and>
            (ffprobe_cache ?s q = None \<longrightarrow> in_flight ?s q = 0)"
        using q none by (cases "q = path") (auto simp: a in_flight_def)
    qed
  qed
qed

lemma coalesced_settle:
  assumes "coalesced s"
  shows "coalesced (settle c s p out)"
proof (cases "p < length (promises s) \<and> snd (promises s ! p) = PPending")
  case False
  then show ?thesis using assms by (simp add: settle_idle)
next
  case True
  then have p: "p < length (promises s)" and pp: "promises s ! p = (fst (promises s ! p), PPending)"
    by (simp_all add: prod_eq_iff)
  let ?path = "fst (promises s ! p)"
  from settle_cases[OF p pp, of c out] obtain st where st: "st \<noteq> PPending"
    and s': "promises (settle c s p out) = (promises s)[p := (?path, st)]"
            "trace (settle c s p out) = Exit ?path # trace s"
            "\<And>q. ffprobe_cache s q \<noteq> None \<Longrightarrow> ffprobe_cache (settle c s p out) q \<noteq> None"
    by (elim exE conjE disjE) (auto simp: store_keeps)
  have cnt: "\<And>q. in_flight (settle c s p out) q + (if q = ?path then 1 else 0) = in_flight s q"
  proof -
    fix q
    from filter_update_count[OF p, of "\<lambda>r. r = (q, PPending)" "(?path, st)"] st pp
    show "in_flight (settle c s p out) q + (if q = ?path then 1 else 0) = in_flight s q"
      by (auto simp: in_flight_def s'(1) prod_eq_iff split: if_splits)
  qed
  show ?thesis
    unfolding coalesced_def
  proof (intro allI)
    fix q
    from assms have q: "in_flight s q \<le> 1" "running (trace s) q = in_flight s q"
      "peak (trace s) q \<le> 2" "ffprobe_cache s q = None \<longrightarrow> in_flight s q = 0"
      by (simp_all add: coalesced_def)
    let ?s = "settle c s p out"
    have none: "ffprobe_cache ?s q = None \<longrightarrow> in_flight ?s q = 0"
      using s'(3)[of q] q(4) cnt[of q] by (cases "ffprobe_cache s q") auto
    show "in_flight ?s q \<le> 1 \<and> running (trace ?s) q = in_flight ?s q \<and> peak (trace ?s) q \<le> 2 \<and>
          (ffprobe_cache ?s q = None \<longrightarrow> in_flight ?s q = 0)"
      using q cnt[of q] none by (auto simp: s'(2) split: if_splits)
  qed
qed

lemma coalesced_step:
  "coalesced s \<Longrightarrow> coalescing_event e \<Longrightarrow> coalesced (step c s e)"
  by (cases e) (simp_all add: coalesced_ffprobe coalesced_ffprobe_sync coalesced_settle)

lemma coalesced_run:
  "coalesced s \<Longrightarrow> list_all coalescing_event evs \<Longrightarrow> coalesced (run c s evs)"
  unfolding run_def
  by (induction evs arbitrary: s) (auto simp: coalesced_step)

text \<open>
  Clearing the cache while an operation is pending lets a second one start for the path,
  and every \<open>ffprobe\<close> call for \<open>__proto__\<close> starts one: the invariant is one of the runs
  without either.
\<close>

lemma clear_allows_two_pending:
  "in_flight (run example_collab init
      [CallProbe ''a.mp3'' None, ClearCache, CallProbe ''a.mp3'' None]) ''a.mp3'' = 2"
  by (simp add: run_simps in_flight_def)

lemma proto_allows_two_pending:
  "in_flight (run example_collab init
      [CallProbe ''__proto__'' None, CallProbe ''__proto__'' None]) ''__proto__'' = 2"
  by (simp add: run_simps in_flight_def)

text \<open>
  C3, amended. In every state reached from the empty cache by \<open>ffprobe\<close> calls,
  \<open>ffprobe.sync\<close> calls and completions, with no clearing of the cache and no \<open>ffprobe\<close>
  call for \<open>__proto__\<close> in between, at most one asynchronous operation per path is
  pending, the processes running for a path are exactly its pending operations, and at
  no moment have more than two processes run for one path (the second being the blocking
  one of an \<open>ffprobe.sync\<close> call).
\<close>

theorem one_pending_per_path:
  assumes "list_all coalescing_event evs"
  shows "in_flight (run c init evs) path \<le> 1 \<and>
         running (trace (run c init evs)) path = in_flight (run c init evs) path \<and>
         peak (trace (run c init evs)) path \<le> 2"
  using coalesced_run[OF coalesced_init assms, of c] by (simp add: coalesced_def)

theorem one_pending_per_path_witness:
  "list_all coalescing_event
     [CallProbe ''a.mp3'' None, CallProbe ''a.mp3'' (Some 100), CallProbe ''hasOwnProperty'' None,
      CallSync ''a.mp3'' None (SyncReturns (tool_output ''example'')),
      CallSync ''__proto__'' None (SyncReturns (tool_output ''example''))] \<and>
   in_flight (run example_collab init
      [CallProbe ''a.mp3'' None, CallProbe ''a.mp3'' (Some 100), CallProbe ''hasOwnProperty'' None,
       CallSync ''a.mp3'' None (SyncReturns (tool_output ''example'')),
       CallSync ''__proto__'' None (SyncReturns (tool_output ''example''))]) ''a.mp3'' \<le> 1 \<and>
   peak (trace (run example_collab init
      [CallProbe ''a.mp3'' None, CallProbe ''a.mp3'' (Some 100), CallProbe ''hasOwnProperty'' None,
       CallSync ''a.mp3'' None (SyncReturns (tool_output ''example'')),
       CallSync ''__proto__'' None (SyncReturns (tool_output ''example''))])) ''a.mp3'' \<le> 2"
proof -
  have h: "list_all coalescing_event
     [CallProbe ''a.mp3'' None, CallProbe ''a.mp3'' (Some 100), CallProbe ''hasOwnProperty'' None,
      CallSync ''a.mp3'' None (SyncReturns (tool_output ''example'')),
      CallSync ''__proto__'' None (SyncReturns (tool_output ''example''))]"
    by simp
  from one_pending_per_path[OF h, of example_collab "''a.mp3''"] h show ?thesis
    by blast
qed

section \<open>Entries that have settled\<close>

text \<open>
  C4 as stated fails: an \<open>ffprobe\<close> call leaves a pending operation, an \<open>ffprobe.sync\<close>
  call whose helper throws stores the error (a Failed entry), and the completion of the
  operation started earlier replaces it with a metadata record, with no clearing of the
  cache.
\<close>

theorem failed_entry_overwritten:
  "ffprobe_cache (run example_collab init
      [CallProbe ''a.mp3'' None, CallSync ''a.mp3'' None (SyncThrows ''timed out'')]) ''a.mp3''
     = Some (Err (ExecSyncError ''timed out'')) \<and>
   ffprobe_cache (run example_collab init
      [CallProbe ''a.mp3'' None, CallSync ''a.mp3'' None (SyncThrows ''timed out''),
       Settle 0 (Resolves (tool_output ''example''))]) ''a.mp3''
     = Some (Info example_metadata)"
  by (simp add: run_simps)

text \<open>
  C4, amended. An entry that is a stored object or error is not changed by any later
  \<open>ffprobe\<close> or \<open>ffprobe.sync\<close> call (for this or another path), nor by the completion of
  an operation for another path, nor by a completion whose output fails extraction.
\<close>

theorem settled_entry_kept:
  assumes "ffprobe_cache s path = Some x" and "settled x"
  shows "ffprobe_cache (snd (ffprobe s q t)) path = Some x \<and>
         ffprobe_cache (snd (ffprobe_sync s q t out)) path = Some x \<and>
         (fst (promises s ! p) \<noteq> path \<longrightarrow> ffprobe_cache (settle c s p res) path = Some x) \<and>
         ((\<exists>e. ffprobe_success c s (fst (promises s ! p)) obj = (Inl e, s)) \<longrightarrow>
            ffprobe_cache (settle c s p (Resolves obj)) path = Some x)"
proof (intro conjI impI)
  show "ffprobe_cache (snd (ffprobe s q t)) path = Some x"
  proof (cases "ffprobe_cache s q")
    case None
    then have "q \<noteq> path" using assms(1) by auto
    with ffprobe_state[of s q t] assms(1) show ?thesis
      by (auto simp: store_other)
  next
    case (Some y)
    then show ?thesis using assms(1) by (simp add: ffprobe_present)
  qed
next
  show "ffprobe_cache (snd (ffprobe_sync s q t out)) path = Some x"
  proof (cases "q = path")
    case True
    then show ?thesis using assms by (simp add: ffprobe_sync_hit)
  next
    case False
    with ffprobe_sync_state[of s q t out] assms(1) show ?thesis
      by (auto simp: store_other)
  qed
next
  assume "fst (promises s ! p) \<noteq> path"
  with assms(1) show "ffprobe_cache (settle c s p res) path = Some x"
    by (rule settle_other_path)
next
  assume "\<exists>e. ffprobe_success c s (fst (promises s ! p)) obj = (Inl e, s)"
  then obtain e where e: "ffprobe_success c s (fst (promises s ! p)) obj = (Inl e, s)" by blast
  show "ffprobe_cache (settle c s p (Resolves obj)) path = Some x"
  proof (cases "p < length (promises s) \<and> snd (promises s ! p) = PPending")
    case False
    then show ?thesis using assms(1) by (simp add: settle_idle)
  next
    case True
    then have p: "p < length (promises s)" and pp: "promises s ! p = (fst (promises s ! p), PPending)"
      by (simp_all add: prod_eq_iff)
    from settle_extraction_error[OF p pp e] assms(1) show ?thesis by simp
  qed
qed

theorem settled_entry_kept_witness:
  "ffprobe_cache (run example_collab init
      [CallProbe ''a.mp3'' None, CallProbe ''b.mp3'' None, Settle 0 (Resolves (tool_output ''example''))]) ''a.mp3''
     = Some (Info example_metadata) \<and>
   ffprobe_cache (run example_collab init
      [CallProbe ''a.mp3'' None, CallProbe ''b.mp3'' None, Settle 0 (Resolves (tool_output ''example'')),
       CallProbe ''a.mp3'' None, CallSync ''a.mp3'' None (SyncThrows ''timed out''),
       Settle 1 (Rejects (tool_failure ''no such file''))]) ''a.mp3''
     = Some (Info example_metadata) \<and>
   ffprobe_cache (run example_collab init
      [CallProbe ''c.mp3'' None, CallSync ''c.mp3'' None (SyncThrows ''timed out'')]) ''c.mp3''
     = Some (Err (ExecSyncError ''timed out'')) \<and>
   ffprobe_cache (run example_collab init
      [CallProbe ''c.mp3'' None, CallSync ''c.mp3'' None (SyncThrows ''timed out''),
       Settle 0 (Resolves (tool_output ''garbage''))]) ''c.mp3''
     = Some (Err (ExecSyncError ''timed out''))"
proof -
  let ?s1 = "run example_collab init
      [CallProbe ''a.mp3'' None, CallProbe ''b.mp3'' None, Settle 0 (Resolves (tool_output ''example''))]"
  have 1: "ffprobe_cache ?s1 ''a.mp3'' = Some (Info example_metadata)"
    by (simp add: run_simps)
  have s: "settled (Info example_metadata)" by simp
  let ?s2 = "snd (ffprobe ?s1 ''a.mp3'' None)"
  have 2: "ffprobe_cache ?s2 ''a.mp3'' = Some (Info example_metadata)"
    using settled_entry_kept[OF 1 s] by blast
  let ?s3 = "snd (ffprobe_sync ?s2 ''a.mp3'' None (SyncThrows ''timed out''))"
  have 3: "ffprobe_cache ?s3 ''a.mp3'' = Some (Info example_metadata)"
    using settled_entry_kept[OF 2 s] by blast
  have "fst (promises ?s3 ! 1) \<noteq> ''a.mp3''"
    by (simp add: run_simps)
  with settled_entry_kept[OF 3 s, of _ _ _ 1 example_collab "Rejects (tool_failure ''no such file'')"]
  have 4: "ffprobe_cache (settle example_collab ?s3 1 (Rejects (tool_failure ''no such file''))) ''a.mp3''
          = Some (Info example_metadata)"
    by blast
  let ?u = "run example_collab init
      [CallProbe ''c.mp3'' None, CallSync ''c.mp3'' None (SyncThrows ''timed out'')]"
  have 5: "ffprobe_cache ?u ''c.mp3'' = Some (Err (ExecSyncError ''timed out''))"
    by (simp add: run_simps)
  have e: "settled (Err (ExecSyncError ''timed out''))" by simp
  have "fst (promises ?u ! 0) = ''c.mp3''"
    by (simp add: run_simps)
  then have "\<exists>e. ffprobe_success example_collab ?u (fst (promises ?u ! 0)) (tool_output ''garbage'') = (Inl e, ?u)"
    by (simp add: ffprobe_success_garbage)
  with settled_entry_kept[OF 5 e, where p = 0 and c = example_collab and obj = "tool_output ''garbage''"]
  have 6: "ffprobe_cache (settle example_collab ?u 0 (Resolves (tool_output ''garbage''))) ''c.mp3''
          = Some (Err (ExecSyncError ''timed out''))"
    by blast
  from 1 4 5 6 show ?thesis by (simp add: run_def)
qed

section \<open>Stored errors\<close>

text \<open>
  C5 as stated fails: after an operation whose output has no format name, the promise is
  rejected with the extraction error but the cache entry is still that promise, and an
  \<open>ffprobe.sync\<close> call for the path runs the tool again and returns its result.
\<close>

theorem extraction_error_not_replayed:
  "promises (run example_collab init
      [CallProbe ''a.mp3'' None, Settle 0 (Resolves (tool_output ''nameless''))])
     = [(''a.mp3'', PRejected (ExtractFailed nameless_info))] \<and>
   ffprobe_cache (run example_collab init
      [CallProbe ''a.mp3'' None, Settle 0 (Resolves (tool_output ''nameless''))]) ''a.mp3''
     = Some (Promise 0) \<and>
   invocations (run example_collab init
      [CallProbe ''a.mp3'' None, Settle 0 (Resolves (tool_output ''nameless''))]) ''a.mp3'' = 1 \<and>
   fst (ffprobe_sync (run example_collab init
      [CallProbe ''a.mp3'' None, Settle 0 (Resolves (tool_output ''nameless''))])
      ''a.mp3'' None (SyncReturns (tool_output ''example'')))
     = Inr (Raw (tool_output ''example'')) \<and>
   invocations (snd (ffprobe_sync (run example_collab init
      [CallProbe ''a.mp3'' None, Settle 0 (Resolves (tool_output ''nameless''))])
      ''a.mp3'' None (SyncReturns (tool_output ''example'')))) ''a.mp3'' = 2"
  by (simp add: run_simps invocations_def ffprobe_success_nameless)

text \<open>
  C5, amended. While an error is stored under a path as an own property of the cache,
  \<open>ffprobe.sync\<close> throws it and, when the cache has no own property \<open>hasOwnProperty\<close>,
  \<open>ffprobe\<close> returns a promise rejected with it, the state unchanged (no invocation). In a
  cache whose prototype has not been replaced and for a path other than \<open>__proto__\<close>, the
  error of a failed invocation is stored: by \<open>ffprobe_fail\<close> when a pending operation
  rejects, by \<open>ffprobe.sync\<close> when its helper throws (the read of the cache under the path
  giving nothing or a promise). An extraction error is not stored: the entry stays the
  promise, now rejected with that error, which later \<open>ffprobe\<close> calls are handed without an
  invocation, while an \<open>ffprobe.sync\<close> call runs the tool again.
\<close>

theorem stored_error_replayed:
  "(ffprobe_cache s path = Some (Err e) \<longrightarrow>
      ffprobe_sync s path t out = (Inl e, s) \<and>
      (ffprobe_cache s ''hasOwnProperty'' = None \<longrightarrow> ffprobe s path t = (Rejected e, s))) \<and>
   (p < length (promises s) \<and> promises s ! p = (path, PPending) \<and>
    proto s = None \<and> path \<noteq> ''__proto__'' \<longrightarrow>
      ffprobe_cache (settle c s p (Rejects obj)) path
        = Some (Err (InvocationError (error obj)
                  (if stderr obj \<noteq> [] then Some (limitString c (''STDERR:'' @ [CHR 0x0A] @ stderr obj) 500) else None)
                  path))) \<and>
   ((lookup s path = None \<or> lookup s path = Some (Promise p)) \<and>
    proto s = None \<and> path \<noteq> ''__proto__'' \<longrightarrow>
      fst (ffprobe_sync s path t (SyncThrows msg)) = Inl (ExecSyncError msg) \<and>
      ffprobe_cache (snd (ffprobe_sync s path t (SyncThrows msg))) path = Some (Err (ExecSyncError msg))) \<and>
   (p < length (promises s) \<and> promises s ! p = (path, PPending) \<and>
    ffprobe_cache s path = Some (Promise p) \<and> ffprobe_cache s ''hasOwnProperty'' = None \<and>
    ffprobe_success c s path obj = (Inl e, s) \<longrightarrow>
      ffprobe_cache (settle c s p (Resolves obj)) path = Some (Promise p) \<and>
      promises (settle c s p (Resolves obj)) ! p = (path, PRejected e) \<and>
      ffprobe (settle c s p (Resolves obj)) path t
        = (Returned (Promise p), settle c s p (Resolves obj)) \<and>
      invocations (snd (ffprobe_sync (settle c s p (Resolves obj)) path t out)) path
        = Suc (invocations (settle c s p (Resolves obj)) path))"
proof (intro conjI impI)
  assume "ffprobe_cache s path = Some (Err e)"
  then show "ffprobe_sync s path t out = (Inl e, s)"
    by (simp add: ffprobe_sync_hit)
next
  assume "ffprobe_cache s path = Some (Err e)" and "ffprobe_cache s ''hasOwnProperty'' = None"
  then show "ffprobe s path t = (Rejected e, s)"
    by (simp add: ffprobe_def hasOwnProperty_def lookup_own)
next
  assume "p < length (promises s) \<and> promises s ! p = (path, PPending) \<and>
    proto s = None \<and> path \<noteq> ''__proto__''"
  then show "ffprobe_cache (settle c s p (Rejects obj)) path
        = Some (Err (InvocationError (error obj)
                  (if stderr obj \<noteq> [] then Some (limitString c (''STDERR:'' @ [CHR 0x0A] @ stderr obj) 500) else None)
                  path))"
    by (simp add: settle_invocation_error) (simp add: ffprobe_fail_def Let_def)
next
  assume a: "(lookup s path = None \<or> lookup s path = Some (Promise p)) \<and>
    proto s = None \<and> path \<noteq> ''__proto__''"
  then have l: "lookup s path = None \<or> lookup s path = Some (Promise p)" by simp
  show "fst (ffprobe_sync s path t (SyncThrows msg)) = Inl (ExecSyncError msg)"
    by (simp add: ffprobe_sync_runs(2)[OF l])
  show "ffprobe_cache (snd (ffprobe_sync s path t (SyncThrows msg))) path = Some (Err (ExecSyncError msg))"
    using a by (simp add: ffprobe_sync_runs(2)[OF l])
next
  assume a: "p < length (promises s) \<and> promises s ! p = (path, PPending) \<and>
    ffprobe_cache s path = Some (Promise p) \<and> ffprobe_cache s ''hasOwnProperty'' = None \<and>
    ffprobe_success c s path obj = (Inl e, s)"
  then have eq: "settle c s p (Resolves obj) =
           s\<lparr> promises := (promises s)[p := (path, PRejected e)], trace := Exit path # trace s \<rparr>"
    by (simp add: settle_extraction_error)
  show c: "ffprobe_cache (settle c s p (Resolves obj)) path = Some (Promise p)"
    using a by (simp add: eq)
  have h: "ffprobe_cache (settle c s p (Resolves obj)) ''hasOwnProperty'' = None"
    using a by (simp add: eq)
  show "promises (settle c s p (Resolves obj)) ! p = (path, PRejected e)"
    using a by (simp add: eq)
  show "ffprobe (settle c s p (Resolves obj)) path t
        = (Returned (Promise p), settle c s p (Resolves obj))"
    using c h by (rule ffprobe_pending)
  have "lookup (settle c s p (Resolves obj)) path = Some (Promise p)"
    using c by (rule lookup_own)
  then show "invocations (snd (ffprobe_sync (settle c s p (Resolves obj)) path t out)) path
        = Suc (invocations (settle c s p (Resolves obj)) path)"
    using ffprobe_sync_invokes by blast
qed

theorem stored_error_replayed_witness:
  "ffprobe_cache (run example_collab init
      [CallProbe ''a.mp3'' None, Settle 0 (Rejects (tool_failure ''no such file''))]) ''a.mp3''
     = Some (Err (InvocationError ''Command failed'' (Some (''STDERR:'' @ [CHR 0x0A] @ ''no such file'')) ''a.mp3'')) \<and>
   fst (ffprobe (run example_collab init
      [CallProbe ''a.mp3'' None, Settle 0 (Rejects (tool_failure ''no such file''))]) ''a.mp3'' None)
     = Rejected (InvocationError ''Command failed'' (Some (''STDERR:'' @ [CHR 0x0A] @ ''no such file'')) ''a.mp3'') \<and>
   fst (ffprobe_sync (run example_collab init
      [CallProbe ''a.mp3'' None, Settle 0 (Rejects (tool_failure ''no such file''))]) ''a.mp3'' None
         (SyncReturns (tool_output ''example'')))
     = Inl (InvocationError ''Command failed'' (Some (''STDERR:'' @ [CHR 0x0A] @ ''no such file'')) ''a.mp3'') \<and>
   invocations (snd (ffprobe_sync (run example_collab init
      [CallProbe ''a.mp3'' None, Settle 0 (Rejects (tool_failure ''no such file''))]) ''a.mp3'' None
         (SyncReturns (tool_output ''example'')))) ''a.mp3'' = 1 \<and>
   ffprobe_sync init ''b.mp3'' None (SyncThrows ''timed out'')
     = (Inl (ExecSyncError ''timed out''),
        snd (ffprobe_sync init ''b.mp3'' None (SyncThrows ''timed out''))) \<and>
   ffprobe_cache (snd (ffprobe_sync init ''b.mp3'' None (SyncThrows ''timed out''))) ''b.mp3''
     = Some (Err (ExecSyncError ''timed out'')) \<and>
   promises (run example_collab init
      [CallProbe ''c.mp3'' None, Settle 0 (Resolves (tool_output ''nameless''))]) ! 0
     = (''c.mp3'', PRejected (ExtractFailed nameless_info)) \<and>
   fst (ffprobe (run example_collab init
      [CallProbe ''c.mp3'' None, Settle 0 (Resolves (tool_output ''nameless''))]) ''c.mp3'' None)
     = Returned (Promise 0) \<and>
   invocations (run example_collab init
      [CallProbe ''c.mp3'' None, Settle 0 (Resolves (tool_output ''nameless'')),
       CallSync ''c.mp3'' None (SyncReturns (tool_output ''example''))]) ''c.mp3'' = 2"
proof -
  let ?q = "snd (ffprobe init ''a.mp3'' None)"
  let ?s = "run example_collab init
      [CallProbe ''a.mp3'' None, Settle 0 (Rejects (tool_failure ''no such file''))]"
  let ?e = "InvocationError ''Command failed'' (Some (''STDERR:'' @ [CHR 0x0A] @ ''no such file'')) ''a.mp3''"
  have s: "?s = settle example_collab ?q 0 (Rejects (tool_failure ''no such file''))"
    by (simp add: run_def)
  have p: "0 < length (promises ?q) \<and> promises ?q ! 0 = (''a.mp3'', PPending) \<and>
           proto ?q = None \<and> ''a.mp3'' \<noteq> ''__proto__''"
    by (simp add: run_simps)
  have "ffprobe_cache (settle example_collab ?q 0 (Rejects (tool_failure ''no such file''))) ''a.mp3''
        = Some (Err (InvocationError (error (tool_failure ''no such file''))
                  (if stderr (tool_failure ''no such file'') \<noteq> []
                   then Some (limitString example_collab
                          (''STDERR:'' @ [CHR 0x0A] @ stderr (tool_failure ''no such file'')) 500)
                   else None)
                  ''a.mp3''))"
    using stored_error_replayed[where s = "?q" and path = "''a.mp3''" and p = 0
        and c = example_collab and obj = "tool_failure ''no such file''"] p
    by blast
  then have 1: "ffprobe_cache ?s ''a.mp3'' = Some (Err ?e)"
    unfolding s by (simp add: tool_failure_def example_collab_def)
  have n0: "ffprobe_cache ?s ''hasOwnProperty'' = None"
    by (simp add: run_simps ffprobe_fail_def)
  have 2: "ffprobe ?s ''a.mp3'' None = (Rejected ?e, ?s)"
    and 3: "ffprobe_sync ?s ''a.mp3'' None (SyncReturns (tool_output ''example'')) = (Inl ?e, ?s)"
    using stored_error_replayed[where s = "?s" and path = "''a.mp3''" and e = ?e and t = None
        and out = "SyncReturns (tool_output ''example'')"] 1 n0
    by blast+
  have 4: "invocations ?s ''a.mp3'' = 1"
    by (simp add: run_simps invocations_def ffprobe_fail_def)
  have n: "(lookup init ''b.mp3'' = None \<or> lookup init ''b.mp3'' = Some (Promise 0)) \<and>
           proto init = None \<and> ''b.mp3'' \<noteq> ''__proto__''"
    by (simp add: init_def cache_defs)
  from stored_error_replayed[where s = init and path = "''b.mp3''" and p = 0 and t = None
      and msg = "''timed out''"] n
  have 5: "fst (ffprobe_sync init ''b.mp3'' None (SyncThrows ''timed out'')) = Inl (ExecSyncError ''timed out'')"
    and 6: "ffprobe_cache (snd (ffprobe_sync init ''b.mp3'' None (SyncThrows ''timed out''))) ''b.mp3''
              = Some (Err (ExecSyncError ''timed out''))"
    by blast+
  let ?v = "snd (ffprobe init ''c.mp3'' None)"
  let ?w = "settle example_collab ?v 0 (Resolves (tool_output ''nameless''))"
  have v: "0 < length (promises ?v) \<and> promises ?v ! 0 = (''c.mp3'', PPending) \<and>
           ffprobe_cache ?v ''c.mp3'' = Some (Promise 0) \<and>
           ffprobe_cache ?v ''hasOwnProperty'' = None \<and>
           ffprobe_success example_collab ?v ''c.mp3'' (tool_output ''nameless'')
             = (Inl (ExtractFailed nameless_info), ?v)"
    by (simp add: ffprobe_success_nameless) (simp add: run_simps)
  from stored_error_replayed[where s = "?v" and path = "''c.mp3''" and p = 0 and c = example_collab
      and obj = "tool_output ''nameless''" and e = "ExtractFailed nameless_info"
      and t = None and out = "SyncReturns (tool_output ''example'')"] v
  have 7: "promises ?w ! 0 = (''c.mp3'', PRejected (ExtractFailed nameless_info))"
    and 8: "ffprobe ?w ''c.mp3'' None = (Returned (Promise 0), ?w)"
    and 9: "invocations (snd (ffprobe_sync ?w ''c.mp3'' None (SyncReturns (tool_output ''example'')))) ''c.mp3''
              = Suc (invocations ?w ''c.mp3'')"
    by blast+
  have 10: "invocations ?w ''c.mp3'' = 1"
    by (simp add: run_simps invocations_def ffprobe_success_nameless)
  from 1 2 3 4 5 6 7 8 9 10 show ?thesis
    by (simp add: run_def prod_eq_iff)
qed

section \<open>Malformed output\<close>

text \<open>
  For the callers of \<open>ffprobe\<close>: a pending operation whose output is malformed is
  rejected with an extraction error, and the cache is left as it was.
\<close>

lemma settle_malformed:
  assumes "p < length (promises s)" and "promises s ! p = (path, PPending)"
    and "tryJsonParse c (stdout obj) = None \<or>
         (\<exists>info. tryJsonParse c (stdout obj) = Some info \<and> \<not> has_streams_and_format info)"
  shows "\<exists>e. is_ExtractionError e \<and>
           promises (settle c s p (Resolves obj)) ! p = (path, PRejected e) \<and>
           ffprobe_cache (settle c s p (Resolves obj)) = ffprobe_cache s"
proof -
  from ffprobe_success_malformed[OF assms(3)] obtain e where
    e: "ffprobe_success c s path obj = (Inl e, s)" "is_ExtractionError e" by blast
  from settle_extraction_error[OF assms(1,2) e(1)] assms(1) e(2) show ?thesis by auto
qed


text \<open>
  C6. For a caller of \<open>ffprobe.sync\<close> no extraction takes place: on output that does not
  parse, for which \<open>ffprobe_success\<close> throws, \<open>ffprobe.sync\<close> returns the helper's raw
  result instead of throwing.
\<close>

theorem ffprobe_sync_skips_extraction:
  "tryJsonParse example_collab (stdout (tool_output ''garbage'')) = None \<and>
   fst (ffprobe_success example_collab init ''a.mp3'' (tool_output ''garbage''))
     = Inl (UnexpectedValue ''a.mp3'' (tool_output ''garbage'')) \<and>
   fst (ffprobe_sync init ''a.mp3'' None (SyncReturns (tool_output ''garbage'')))
     = Inr (Raw (tool_output ''garbage''))"
  by (simp add: run_simps example_parses)


section \<open>Clearing the cache\<close>


lemma elapse_quiet: "\<not> timer_fires now d \<Longrightarrow> elapse s now d = s"
  by (simp add: elapse_def)




end
